theory Spec2Isabelle
  imports Complex_Main
begin

section \<open>The content tracker (src/twitter_bot/core/content_tracker.py)\<close>

text \<open>
  The class \<open>ContentTracker\<close> keeps five collections in \<open>self.data\<close>, prunes them by
  age, classifies text as news or personal, and asks scikit-learn for a TF-IDF cosine
  similarity. Its methods are embedded here as functions that take the tracker and
  return it updated; a raised exception is a value of \<open>py_error\<close>.
\<close>

subsection \<open>Values\<close>

datatype py_error = KeyError | ValueError | TypeError | OSError

datatype log_level = DEBUG | INFO | WARNING | ERROR

text \<open>
  What the module takes from the Python standard library and from scikit-learn. None of
  it is code of the repository, so it is a parameter of every function that uses it.
  \<^item> A naive \<open>datetime\<close> is its number of microseconds since a fixed origin, a
    \<open>timedelta\<close> a number of microseconds.
  \<^item> \<open>fromisoformat s\<close> is \<open>datetime.fromisoformat(s)\<close> read for comparison with
    \<open>datetime.now()\<close>: \<open>Inl e\<close> where parsing raises, or where the parsed value is
    timezone-aware, so that comparing it with the naive \<open>now\<close> raises \<open>TypeError\<close>.
  \<^item> \<open>isoformat\<close> is \<open>datetime.isoformat()\<close>.
  \<^item> \<open>analyzer\<close> is the analyzer of the vectorizer that \<open>__init__\<close> configures: the
    terms of a document, that is its tokens of two or more word characters, lower-cased,
    without the English stop words, followed by the pairs of neighbouring tokens.
  \<^item> \<open>limit_features\<close> is the choice of the 1000 terms of highest count that
    \<^verbatim>\<open>max_features=1000\<close> asks for, where the documents have more terms than that.
\<close>

record lib =
  fromisoformat :: "string \<Rightarrow> py_error + int"
  isoformat :: "int \<Rightarrow> string"
  analyzer :: "string \<Rightarrow> string list"
  limit_features :: "string list list \<Rightarrow> string list"

definition timedelta_days :: "int \<Rightarrow> int" where
  "timedelta_days n = n * 86400000000"

definition timedelta_hours :: "int \<Rightarrow> int" where
  "timedelta_hours n = n * 3600000000"

definition total_seconds :: "int \<Rightarrow> real" where
  "total_seconds d = real_of_int d / 1000000"

subsection \<open>Text\<close>

text \<open>
  Text is ASCII: a \<open>string\<close> is a list of 8-bit characters, and the character classes
  below are those of Python's \<open>re\<close> and \<open>str\<close> on code points below 128.
\<close>

definition is_alpha :: "char \<Rightarrow> bool" where
  "is_alpha c = (let n = (of_char c :: nat) in (65 \<le> n \<and> n \<le> 90) \<or> (97 \<le> n \<and> n \<le> 122))"

definition is_digit :: "char \<Rightarrow> bool" where
  "is_digit c = (let n = (of_char c :: nat) in 48 \<le> n \<and> n \<le> 57)"

definition is_ident :: "char \<Rightarrow> bool" where
  \<comment> \<open>\<^verbatim>\<open>[a-zA-Z0-9_]\<close>, and \<^verbatim>\<open>\w\<close> on ASCII\<close>
  "is_ident c = (is_alpha c \<or> is_digit c \<or> c = CHR ''_'')"

definition is_space :: "char \<Rightarrow> bool" where
  \<comment> \<open>\<^verbatim>\<open>\s\<close> on ASCII: tab to carriage return, the four separators 28 to 31, space\<close>
  "is_space c = (let n = (of_char c :: nat) in (9 \<le> n \<and> n \<le> 13) \<or> (28 \<le> n \<and> n \<le> 32))"

definition is_url_char :: "char \<Rightarrow> bool" where
  \<comment> \<open>one step of \<^verbatim>\<open>(?:[a-zA-Z]|[0-9]|[$-_@.&+]|[!*\\(\\),]|(?:%[0-9a-fA-F][0-9a-fA-F]))+\<close>;
      the range \<^verbatim>\<open>$-_\<close> is 36 to 95 and holds every character of the other classes but
      the lower-case letters and \<^verbatim>\<open>!\<close>\<close>
  "is_url_char c = (let n = (of_char c :: nat) in
     is_alpha c \<or> is_digit c \<or> (36 \<le> n \<and> n \<le> 95) \<or> c = CHR ''!'')"

definition lower_char :: "char \<Rightarrow> char" where
  "lower_char c = (let n = (of_char c :: nat) in if 65 \<le> n \<and> n \<le> 90 then char_of (n + 32) else c)"

definition lower :: "string \<Rightarrow> string" where
  "lower s = map lower_char s"

primrec startswith :: "string \<Rightarrow> string \<Rightarrow> bool" where
  "startswith [] p = (p = [])"
| "startswith (c # cs) p = (case p of [] \<Rightarrow> True | q # qs \<Rightarrow> c = q \<and> startswith cs qs)"

primrec str_in :: "string \<Rightarrow> string \<Rightarrow> bool" where
  \<comment> \<open>\<open>str_in p s\<close> is Python's \<^verbatim>\<open>p in s\<close>\<close>
  "str_in p [] = (p = [])"
| "str_in p (c # cs) = (startswith (c # cs) p \<or> str_in p cs)"

function sub_urls :: "string \<Rightarrow> string" where
  "sub_urls [] = []"
| "sub_urls (c # cs) =
     (let s = c # cs;
          r = (if startswith s ''https://'' then drop 8 s
               else if startswith s ''http://'' then drop 7 s else [])
      in if r \<noteq> [] \<and> is_url_char (hd r) then sub_urls (dropWhile is_url_char r)
         else c # sub_urls cs)"
  by pat_completeness auto
termination
proof (relation "measure length", goal_cases)
  case 1
  show ?case by simp
next
  case (2 c cs s r)
  have "length (dropWhile is_url_char r) \<le> length r"
    by (rule length_dropWhile_le)
  moreover have "length r < length (c # cs)"
    using 2 by (auto split: if_splits)
  ultimately show ?case by simp
next
  case (3 c cs s r)
  show ?case by simp
qed

function sub_tagged :: "char \<Rightarrow> string \<Rightarrow> string" where
  \<comment> \<open>\<^verbatim>\<open>re.sub(r'@[a-zA-Z0-9_]+', '', s)\<close> for the tag \<^verbatim>\<open>@\<close>, and the same for \<^verbatim>\<open>#\<close>\<close>
  "sub_tagged t [] = []"
| "sub_tagged t (c # cs) =
     (if c = t \<and> cs \<noteq> [] \<and> is_ident (hd cs) then sub_tagged t (dropWhile is_ident cs)
      else c # sub_tagged t cs)"
  by pat_completeness auto
termination
proof (relation "measure (\<lambda>(t, s). length s)", goal_cases)
  case 1
  show ?case by simp
next
  case (2 t c cs)
  have "length (dropWhile is_ident cs) \<le> length cs"
    by (rule length_dropWhile_le)
  then show ?case by simp
next
  case (3 t c cs)
  show ?case by simp
qed

function sub_spaces :: "string \<Rightarrow> string" where
  \<comment> \<open>\<^verbatim>\<open>re.sub(r'\s+', ' ', s)\<close>\<close>
  "sub_spaces [] = []"
| "sub_spaces (c # cs) =
     (if is_space c then CHR '' '' # sub_spaces (dropWhile is_space cs)
      else c # sub_spaces cs)"
  by pat_completeness auto
termination
proof (relation "measure length", goal_cases)
  case 1
  show ?case by simp
next
  case (2 c cs)
  have "length (dropWhile is_space cs) \<le> length cs"
    by (rule length_dropWhile_le)
  then show ?case by simp
next
  case (3 c cs)
  show ?case by simp
qed

definition sub_special :: "string \<Rightarrow> string" where
  \<comment> \<open>\<^verbatim>\<open>re.sub(r'[^\w\s]', ' ', s)\<close>\<close>
  "sub_special s = map (\<lambda>c. if is_ident c \<or> is_space c then c else CHR '' '') s"

definition strip :: "string \<Rightarrow> string" where
  "strip s = rev (dropWhile is_space (rev (dropWhile is_space s)))"

definition preprocess_content :: "string \<Rightarrow> string" where
  "preprocess_content content0 =
     lower (strip (sub_special (sub_spaces
       (sub_tagged (CHR ''#'') (sub_tagged (CHR ''@'') (sub_urls content0))))))"

definition news_content_types :: "string list" where
  "news_content_types = [''news'', ''announcement'', ''breaking'', ''funding'', ''launch'',
     ''acquisition'', ''merger'', ''earnings'', ''ipo'']"

definition similarity_content_types :: "string list" where
  "similarity_content_types = [''personal_growth'', ''advice'', ''observation'', ''insight'',
     ''opinion'', ''experience'', ''lesson'', ''framework'']"

definition classify_content_type :: "string \<Rightarrow> string \<Rightarrow> string" where
  "classify_content_type content0 ctx =
     (let content_lower = lower (content0 @ '' '' @ ctx)
      in if list_ex (\<lambda>news_type. str_in news_type content_lower) news_content_types
         then ''news''
         else if list_ex (\<lambda>personal_type. str_in personal_type content_lower)
                   similarity_content_types
         then ''personal''
         else ''personal'')"

subsection \<open>The store\<close>

text \<open>
  An entry of \<open>posted_content\<close> or \<open>email_content\<close>. The field \<open>entry_context\<close> is the
  key \<^verbatim>\<open>'context'\<close>; \<open>timestamp\<close> is \<open>None\<close> where the key is missing, which
  \<^verbatim>\<open>item.get('timestamp', '2025-01-01T00:00:00')\<close> allows for.
\<close>

record content_entry =
  content :: string
  content_type :: string
  original_type :: string
  entry_context :: string
  timestamp :: "string option"

text \<open>
  A value of one of the three dictionaries: the ISO string that \<open>mark_rss_post_used\<close> and
  \<open>mark_theme_used\<close> store, or the dictionary
  \<^verbatim>\<open>{'reply_id': ..., 'timestamp': ...}\<close> that \<open>mark_tweet_replied\<close> stores.
\<close>

datatype tracked = Stamp string | Reply string string

type_synonym pydict = "string \<rightharpoonup> tracked"

text \<open>\<open>self.data\<close>: a collection is \<open>None\<close> where its key is missing.\<close>

record tracker_data =
  replied_tweets :: "pydict option"
  used_rss_posts :: "pydict option"
  email_content :: "content_entry list option"
  posted_content :: "content_entry list option"
  content_themes :: "pydict option"

definition empty_data :: tracker_data where
  "empty_data = \<lparr>replied_tweets = Some Map.empty, used_rss_posts = Some Map.empty,
     email_content = Some [], posted_content = Some [], content_themes = Some Map.empty\<rparr>"

text \<open>
  The backing file, by what \<open>open\<close> and \<open>json.load\<close> make of it: missing, present but
  not readable, readable but not JSON, or holding a document. What the next
  \<^verbatim>\<open>open(self.tracker_file, 'w')\<close> and \<open>json.dump\<close> will do is \<open>disk\<close>: succeed, fail
  at \<open>open\<close>, or fail after the file was truncated.
\<close>

datatype file_state = Absent | Unreadable | Malformed | Stored tracker_data

datatype write_outcome = WriteOk | OpenFails | DumpFails

text \<open>
  The tracker object lives in one Python process. The built-in \<open>hash\<close> of strings is
  salted anew for every process, so it belongs to the object: \<open>process_hash\<close> is the
  \<open>hash\<close> of the process that constructed the tracker. It is not written to the
  file.
\<close>

record tracker =
  data :: tracker_data
  tracker_file :: file_state
  disk :: write_outcome
  logged :: "log_level list"
  process_hash :: "string \<Rightarrow> int"

definition similarity_threshold :: real where
  "similarity_threshold = 15 / 100"

subsection \<open>Loading and saving\<close>

definition read_json :: "file_state \<Rightarrow> py_error + tracker_data" where
  \<comment> \<open>\<^verbatim>\<open>with open(self.tracker_file, 'r') as f: return json.load(f)\<close>\<close>
  "read_json f = (case f of
       Absent \<Rightarrow> Inl OSError
     | Unreadable \<Rightarrow> Inl OSError
     | Malformed \<Rightarrow> Inl ValueError
     | Stored d \<Rightarrow> Inr d)"

definition file_exists :: "file_state \<Rightarrow> bool" where
  \<comment> \<open>\<^verbatim>\<open>self.tracker_file.exists()\<close>\<close>
  "file_exists f = (case f of Absent \<Rightarrow> False | _ \<Rightarrow> True)"

definition load_tracker_data :: "file_state \<Rightarrow> tracker_data \<times> log_level list" where
  "load_tracker_data f =
     (case (if file_exists f then read_json f else Inr empty_data) of
        Inr d \<Rightarrow> (d, [])
      | Inl e \<Rightarrow> (empty_data, [ERROR]))"

definition init :: "file_state \<Rightarrow> write_outcome \<Rightarrow> (string \<Rightarrow> int) \<Rightarrow> tracker" where
  \<comment> \<open>\<open>__init__\<close> in a process whose built-in \<open>hash\<close> is \<open>h\<close>\<close>
  "init f w h = (case load_tracker_data f of
       (d, l) \<Rightarrow> \<lparr>data = d, tracker_file = f, disk = w, logged = l @ [INFO],
                  process_hash = h\<rparr>)"

definition save_tracker_data :: "tracker \<Rightarrow> tracker" where
  "save_tracker_data t = (case disk t of
       WriteOk \<Rightarrow> t\<lparr>tracker_file := Stored (data t)\<rparr>
     | OpenFails \<Rightarrow> t\<lparr>logged := logged t @ [ERROR]\<rparr>
     | DumpFails \<Rightarrow> t\<lparr>tracker_file := Malformed, logged := logged t @ [ERROR]\<rparr>)"

subsection \<open>Similarity\<close>

text \<open>
  The vectorizer is
  \<^verbatim>\<open>TfidfVectorizer(max_features=1000, stop_words='english', ngram_range=(1, 2), lowercase=True)\<close>,
  with the defaults of scikit-learn for the rest: a term weighs its count in the
  document times its smoothed inverse document frequency, and every row is scaled to
  Euclidean length 1. \<open>fit_transform\<close> raises \<open>ValueError\<close> (empty vocabulary)
  where no document has a term. \<open>cosine_similarity\<close> scales the rows of both arguments
  to length 1 and multiplies them. Floats are read as reals.
\<close>

definition tf :: "string list \<Rightarrow> string \<Rightarrow> real" where
  "tf doc w = real (count_list doc w)"

definition document_frequency :: "string list list \<Rightarrow> string \<Rightarrow> nat" where
  "document_frequency docs w = length (filter (\<lambda>doc. w \<in> set doc) docs)"

definition idf :: "string list list \<Rightarrow> string \<Rightarrow> real" where
  "idf docs w =
     ln ((1 + real (length docs)) / (1 + real (document_frequency docs w))) + 1"

definition dot :: "real list \<Rightarrow> real list \<Rightarrow> real" where
  "dot xs ys = sum_list (map (\<lambda>(x, y). x * y) (zip xs ys))"

definition l2_normalize :: "real list \<Rightarrow> real list" where
  "l2_normalize v = (let n = sqrt (dot v v) in if n = 0 then v else map (\<lambda>x. x / n) v)"

definition vocabulary :: "lib \<Rightarrow> string list list \<Rightarrow> string list" where
  "vocabulary l docs =
     (let terms = remdups (concat docs)
      in if length terms \<le> 1000 then terms else limit_features l docs)"

definition fit_transform :: "lib \<Rightarrow> string list \<Rightarrow> py_error + real list list" where
  "fit_transform l raw_documents =
     (let docs = map (analyzer l) raw_documents
      in if concat docs = [] then Inl ValueError
         else
           let vocab = vocabulary l docs
           in Inr (map (\<lambda>doc. l2_normalize (map (\<lambda>w. tf doc w * idf docs w) vocab)) docs))"

definition cosine_similarity :: "real list list \<Rightarrow> real list list \<Rightarrow> real list list" where
  "cosine_similarity X Y =
     map (\<lambda>x. map (\<lambda>y. dot (l2_normalize x) (l2_normalize y)) Y) X"

primrec max_of :: "real list \<Rightarrow> real" where
  \<comment> \<open>\<^verbatim>\<open>similarities.max()\<close>, called on a non-empty array only\<close>
  "max_of [] = 0"
| "max_of (x # xs) = fold max xs x"

definition calculate_similarity :: "lib \<Rightarrow> string \<Rightarrow> string list \<Rightarrow> real \<times> log_level list" where
  "calculate_similarity l new_content existing_contents =
     (if existing_contents = [] then (0, [])
      else
        let new_content_clean = preprocess_content new_content;
            existing_contents_clean = map preprocess_content existing_contents;
            all_content = new_content_clean # existing_contents_clean
        in case fit_transform l all_content of
             Inl e \<Rightarrow> (0, [WARNING])
           | Inr tfidf_matrix \<Rightarrow>
               (let similarities = concat (cosine_similarity (take 1 tfidf_matrix)
                                             (drop 1 tfidf_matrix))
                in (if similarities \<noteq> [] then max_of similarities else 0, [])))"

subsection \<open>Pruning\<close>

definition entry_time :: "lib \<Rightarrow> content_entry \<Rightarrow> py_error + int" where
  "entry_time l item = fromisoformat l
     (case timestamp item of None \<Rightarrow> ''2025-01-01T00:00:00'' | Some s \<Rightarrow> s)"

text \<open>
  The list comprehension of \<open>_clean_old_entries\<close>. Nothing catches what
  \<open>fromisoformat\<close> raises there: the first item that fails ends the comprehension.
\<close>

fun clean_list :: "lib \<Rightarrow> int \<Rightarrow> content_entry list \<Rightarrow> py_error + content_entry list" where
  "clean_list l cutoff_time [] = Inr []"
| "clean_list l cutoff_time (item # items) =
     (case entry_time l item of
        Inl e \<Rightarrow> Inl e
      | Inr ts \<Rightarrow>
          (case clean_list l cutoff_time items of
             Inl e \<Rightarrow> Inl e
           | Inr kept \<Rightarrow> Inr (if ts \<ge> cutoff_time then item # kept else kept)))"

text \<open>The condition of the comprehension, where it does not raise.\<close>

definition fresh_entry :: "lib \<Rightarrow> int \<Rightarrow> content_entry \<Rightarrow> bool" where
  "fresh_entry l c item = (case entry_time l item of Inl e \<Rightarrow> False | Inr ts \<Rightarrow> c \<le> ts)"

text \<open>
  The dictionary branch: a key goes to \<open>old_keys\<close> when its value is older than the
  cutoff, and also when \<open>fromisoformat\<close> raises \<open>ValueError\<close> or \<open>TypeError\<close> on it.
  \<open>fromisoformat\<close> of a value that is not a string raises \<open>TypeError\<close>.
\<close>

definition is_old_key :: "lib \<Rightarrow> int \<Rightarrow> tracked \<Rightarrow> bool" where
  "is_old_key l cutoff_time v = (case v of
       Reply reply_id s \<Rightarrow> True
     | Stamp timestamp_str \<Rightarrow>
         (case fromisoformat l timestamp_str of
            Inl e \<Rightarrow> True
          | Inr ts \<Rightarrow> ts < cutoff_time))"

definition clean_dict :: "lib \<Rightarrow> int \<Rightarrow> pydict \<Rightarrow> pydict" where
  \<comment> \<open>every key of \<open>old_keys\<close> deleted\<close>
  "clean_dict l cutoff_time m = (\<lambda>key. case m key of
       None \<Rightarrow> None
     | Some v \<Rightarrow> if is_old_key l cutoff_time v then None else Some v)"

text \<open>
  \<open>_clean_old_entries\<close> walks \<open>retention_periods\<close> in its order and changes
  \<open>self.data\<close> in place, so an exception leaves the collections before it pruned. The
  result is the exception, if any, and the data as it then is.
\<close>

definition clean_old_entries :: "lib \<Rightarrow> int \<Rightarrow> tracker_data \<Rightarrow> py_error option \<times> tracker_data" where
  "clean_old_entries l now d0 =
     (let d1 = d0\<lparr>replied_tweets :=
                 map_option (clean_dict l (now - timedelta_days 30)) (replied_tweets d0)\<rparr>;
          d2 = d1\<lparr>used_rss_posts :=
                 map_option (clean_dict l (now - timedelta_days 7)) (used_rss_posts d1)\<rparr>
      in case (case email_content d2 of None \<Rightarrow> Inr None
               | Some items \<Rightarrow> map_sum id Some (clean_list l (now - timedelta_days 14) items)) of
           Inl e \<Rightarrow> (Some e, d2)
         | Inr em \<Rightarrow>
             (let d3 = d2\<lparr>email_content := em\<rparr>
              in case (case posted_content d3 of None \<Rightarrow> Inr None
                       | Some items \<Rightarrow>
                           map_sum id Some (clean_list l (now - timedelta_days 30) items)) of
                   Inl e \<Rightarrow> (Some e, d3)
                 | Inr po \<Rightarrow>
                     (let d4 = d3\<lparr>posted_content := po\<rparr>
                      in (None, d4\<lparr>content_themes :=
                            map_option (clean_dict l (now - timedelta_hours 6))
                              (content_themes d4)\<rparr>))))"

subsection \<open>Posted and email content\<close>

definition has_posted_similar_content ::
  "lib \<Rightarrow> int \<Rightarrow> tracker \<Rightarrow> string \<Rightarrow> string \<Rightarrow> string \<Rightarrow> (py_error + bool) \<times> tracker" where
  "has_posted_similar_content l now t content0 content_type0 ctx =
     (case clean_old_entries l now (data t) of
        (Some e, d) \<Rightarrow> (Inl e, t\<lparr>data := d\<rparr>)
      | (None, d) \<Rightarrow>
          (let t1 = t\<lparr>data := d\<rparr>;
               classified_type = classify_content_type content0 ctx
           in if classified_type = ''news''
              then (Inr False, t1\<lparr>logged := logged t1 @ [DEBUG]\<rparr>)
              else case posted_content d of
                     None \<Rightarrow> (Inl KeyError, t1)
                   | Some items \<Rightarrow>
                       (let existing_contents = map content items
                        in if existing_contents = [] then (Inr False, t1)
                           else case calculate_similarity l content0 existing_contents of
                                  (max_similarity, w) \<Rightarrow>
                                    (Inr (max_similarity > similarity_threshold),
                                     t1\<lparr>logged := logged t1 @ w @ [DEBUG]\<rparr>))))"

definition mark_content_posted ::
  "lib \<Rightarrow> int \<Rightarrow> tracker \<Rightarrow> string \<Rightarrow> string \<Rightarrow> string \<Rightarrow> (py_error + unit) \<times> tracker" where
  "mark_content_posted l now t content0 content_type0 ctx =
     (let classified_type = classify_content_type content0 ctx;
          content_entry = \<lparr>content = content0, content_type = classified_type,
            original_type = content_type0, entry_context = ctx,
            timestamp = Some (isoformat l now)\<rparr>
      in case posted_content (data t) of
           None \<Rightarrow> (Inl KeyError, t)
         | Some items \<Rightarrow>
             (let t1 = save_tracker_data
                    (t\<lparr>data := (data t)\<lparr>posted_content := Some (items @ [content_entry])\<rparr>\<rparr>)
              in (Inr (), t1\<lparr>logged := logged t1 @ [DEBUG]\<rparr>)))"

definition has_generated_similar_email ::
  "lib \<Rightarrow> int \<Rightarrow> tracker \<Rightarrow> string \<Rightarrow> string \<Rightarrow> string \<Rightarrow> (py_error + bool) \<times> tracker" where
  "has_generated_similar_email l now t content0 content_type0 ctx =
     (case clean_old_entries l now (data t) of
        (Some e, d) \<Rightarrow> (Inl e, t\<lparr>data := d\<rparr>)
      | (None, d) \<Rightarrow>
          (let t1 = t\<lparr>data := d\<rparr>;
               classified_type = classify_content_type content0 ctx
           in if classified_type = ''news''
              then (Inr False, t1\<lparr>logged := logged t1 @ [DEBUG]\<rparr>)
              else case email_content d of
                     None \<Rightarrow> (Inl KeyError, t1)
                   | Some items \<Rightarrow>
                       (let existing_contents = map content items
                        in if existing_contents = [] then (Inr False, t1)
                           else case calculate_similarity l content0 existing_contents of
                                  (max_similarity, w) \<Rightarrow>
                                    (Inr (max_similarity > similarity_threshold),
                                     t1\<lparr>logged := logged t1 @ w @ [DEBUG]\<rparr>))))"

definition mark_email_content_generated ::
  "lib \<Rightarrow> int \<Rightarrow> tracker \<Rightarrow> string \<Rightarrow> string \<Rightarrow> string \<Rightarrow> (py_error + unit) \<times> tracker" where
  "mark_email_content_generated l now t content0 content_type0 ctx =
     (let classified_type = classify_content_type content0 ctx;
          content_entry = \<lparr>content = content0, content_type = classified_type,
            original_type = content_type0, entry_context = ctx,
            timestamp = Some (isoformat l now)\<rparr>
      in case email_content (data t) of
           None \<Rightarrow> (Inl KeyError, t)
         | Some items \<Rightarrow>
             (let t1 = save_tracker_data
                    (t\<lparr>data := (data t)\<lparr>email_content := Some (items @ [content_entry])\<rparr>\<rparr>)
              in (Inr (), t1\<lparr>logged := logged t1 @ [DEBUG]\<rparr>)))"

subsection \<open>Replied tweets\<close>

definition mark_tweet_replied :: "lib \<Rightarrow> int \<Rightarrow> tracker \<Rightarrow> string \<Rightarrow> string \<Rightarrow> tracker" where
  "mark_tweet_replied l now t tweet_id reply_id =
     (let m = (case replied_tweets (data t) of None \<Rightarrow> Map.empty | Some m0 \<Rightarrow> m0);
          t1 = save_tracker_data
                 (t\<lparr>data := (data t)\<lparr>replied_tweets :=
                    Some (m(tweet_id \<mapsto> Reply reply_id (isoformat l now)))\<rparr>\<rparr>)
      in t1\<lparr>logged := logged t1 @ [DEBUG]\<rparr>)"

definition has_replied_to_tweet :: "tracker \<Rightarrow> string \<Rightarrow> bool \<times> tracker" where
  "has_replied_to_tweet t tweet_id =
     (case replied_tweets (data t) of
        None \<Rightarrow> (False, t\<lparr>data := (data t)\<lparr>replied_tweets := Some Map.empty\<rparr>\<rparr>)
      | Some m \<Rightarrow> (m tweet_id \<noteq> None, t))"

subsection \<open>RSS posts\<close>

function str_nat :: "nat \<Rightarrow> string" where
  \<comment> \<open>the decimal digits of a number, as an f-string writes them\<close>
  "str_nat n = (if n < 10 then [''0123456789'' ! n]
                else str_nat (n div 10) @ [''0123456789'' ! (n mod 10)])"
  by pat_completeness auto
termination
  by (relation "measure id") auto

declare str_nat.simps [simp del]

definition str_int :: "int \<Rightarrow> string" where
  "str_int i = (if i < 0 then ''-'' @ str_nat (nat (- i)) else str_nat (nat i))"

definition content_hash :: "(string \<Rightarrow> int) \<Rightarrow> string \<Rightarrow> string \<Rightarrow> string" where
  \<comment> \<open>\<^verbatim>\<open>f"{username}:{hash(content) % 10000000}"\<close>, with \<open>h\<close> the \<open>hash\<close> of the
      running process\<close>
  "content_hash h username content0 = username @ '':'' @ str_int (h content0 mod 10000000)"

definition has_used_rss_post ::
  "lib \<Rightarrow> int \<Rightarrow> tracker \<Rightarrow> string \<Rightarrow> string \<Rightarrow> (py_error + bool) \<times> tracker" where
  "has_used_rss_post l now t username content0 =
     (case clean_old_entries l now (data t) of
        (Some e, d) \<Rightarrow> (Inl e, t\<lparr>data := d\<rparr>)
      | (None, d) \<Rightarrow>
          (let t1 = t\<lparr>data := d\<rparr>
           in case used_rss_posts d of
                None \<Rightarrow> (Inl KeyError, t1)
              | Some m \<Rightarrow> (Inr (m (content_hash (process_hash t) username content0) \<noteq> None), t1)))"

definition mark_rss_post_used ::
  "lib \<Rightarrow> int \<Rightarrow> tracker \<Rightarrow> string \<Rightarrow> string \<Rightarrow> (py_error + unit) \<times> tracker" where
  "mark_rss_post_used l now t username content0 =
     (case used_rss_posts (data t) of
        None \<Rightarrow> (Inl KeyError, t)
      | Some m \<Rightarrow>
          (let t1 = save_tracker_data
                 (t\<lparr>data := (data t)\<lparr>used_rss_posts :=
                    Some (m(content_hash (process_hash t) username content0 \<mapsto> Stamp (isoformat l now)))\<rparr>\<rparr>)
           in (Inr (), t1\<lparr>logged := logged t1 @ [DEBUG]\<rparr>)))"

subsection \<open>Themes\<close>

text \<open>
  \<open>has_used_theme_recently\<close> reads the clock twice: \<open>now\<close> inside \<open>_clean_old_entries\<close>
  and \<open>now'\<close> for the time difference.
\<close>

definition has_used_theme_recently ::
  "lib \<Rightarrow> int \<Rightarrow> int \<Rightarrow> tracker \<Rightarrow> string \<Rightarrow> int \<Rightarrow> (py_error + bool) \<times> tracker" where
  "has_used_theme_recently l now now' t theme timeframe_hours =
     (case clean_old_entries l now (data t) of
        (Some e, d) \<Rightarrow> (Inl e, t\<lparr>data := d\<rparr>)
      | (None, d) \<Rightarrow>
          (let t1 = t\<lparr>data := d\<rparr>
           in case content_themes d of
                None \<Rightarrow> (Inl KeyError, t1)
              | Some m \<Rightarrow>
                  (case m theme of
                     None \<Rightarrow> (Inr False, t1)
                   | Some (Reply reply_id s) \<Rightarrow> (Inl TypeError, t1)
                   | Some (Stamp s) \<Rightarrow>
                       (case fromisoformat l s of
                          Inl e \<Rightarrow> (Inl e, t1)
                        | Inr theme_time \<Rightarrow>
                            (let time_diff = now' - theme_time
                             in (Inr (total_seconds time_diff
                                        < real_of_int (timeframe_hours * 3600)), t1))))))"

definition mark_theme_used :: "lib \<Rightarrow> int \<Rightarrow> tracker \<Rightarrow> string \<Rightarrow> (py_error + unit) \<times> tracker" where
  "mark_theme_used l now t theme =
     (case content_themes (data t) of
        None \<Rightarrow> (Inl KeyError, t)
      | Some m \<Rightarrow>
          (let t1 = save_tracker_data
                 (t\<lparr>data := (data t)\<lparr>content_themes :=
                    Some (m(theme \<mapsto> Stamp (isoformat l now)))\<rparr>\<rparr>)
           in (Inr (), t1\<lparr>logged := logged t1 @ [DEBUG]\<rparr>)))"

subsection \<open>Statistics\<close>

record statistics =
  replied_tweets_count :: nat
  used_rss_posts_count :: nat
  email_content_count :: nat
  posted_content_count :: nat
  content_themes_count :: nat
  threshold :: real

definition get_statistics :: "lib \<Rightarrow> int \<Rightarrow> tracker \<Rightarrow> (py_error + statistics) \<times> tracker" where
  "get_statistics l now t =
     (case clean_old_entries l now (data t) of
        (Some e, d) \<Rightarrow> (Inl e, t\<lparr>data := d\<rparr>)
      | (None, d) \<Rightarrow>
          (let t1 = t\<lparr>data := d\<rparr>
           in case (replied_tweets d, used_rss_posts d, email_content d, posted_content d,
                    content_themes d) of
                (Some rt, Some rss, Some em, Some po, Some th) \<Rightarrow>
                  (Inr \<lparr>replied_tweets_count = card (dom rt),
                        used_rss_posts_count = card (dom rss),
                        email_content_count = length em,
                        posted_content_count = length po,
                        content_themes_count = card (dom th),
                        threshold = similarity_threshold\<rparr>, t1)
              | _ \<Rightarrow> (Inl KeyError, t1)))"

subsection \<open>Sample inputs\<close>

text \<open>
  The built-in \<open>hash\<close> in two runs of the program: the salt differs, and with it the
  hash of \<^verbatim>\<open>'post body'\<close>.
\<close>

definition hash_run1 :: "string \<Rightarrow> int" where
  "hash_run1 = (\<lambda>s. if s = ''post body'' then - 8765432109876543 else int (length s))"

definition hash_run2 :: "string \<Rightarrow> int" where
  "hash_run2 = (\<lambda>s. if s = ''post body'' then 3141592656033637 else int (length s) + 1)"

text \<open>
  The library at the strings and instants that the examples below use. Instants count
  microseconds from 1970-01-01T00:00:00. \<^verbatim>\<open>'not-a-date'\<close> is no ISO date. The text
  \<^verbatim>\<open>'a'\<close> has no token of two or more word characters; \<^verbatim>\<open>'lesson learned'\<close>
  has two tokens, neither a stop word, and their pair. Outside these inputs the fields
  take a fixed value that no example reads; no example has more than 1000 terms.
\<close>

definition sample_lib :: lib where
  "sample_lib = \<lparr>
     fromisoformat = (\<lambda>s. if s = ''2025-06-01T12:00:00'' then Inr 1748779200000000
                          else if s = ''2025-01-01T00:00:00'' then Inr 1735689600000000
                          else if s = ''not-a-date'' then Inl ValueError
                          else Inl ValueError),
     isoformat = (\<lambda>ts. if ts = 1748779200000000 then ''2025-06-01T12:00:00''
                          else if ts = 1735689600000000 then ''2025-01-01T00:00:00''
                          else []),
     analyzer = (\<lambda>s. if s = ''a'' then []
                          else if s = ''lesson learned''
                          then [''lesson'', ''learned'', ''lesson learned'']
                          else []),
     limit_features = (\<lambda>docs. [])\<rparr>"

text \<open>
  A tracker started without a file, with one entry recorded in every collection on
  2025-01-01 at midnight.
\<close>

definition sample_tracker :: tracker where
  "sample_tracker =
     (let old = 1735689600000000;
          t1 = snd (mark_rss_post_used sample_lib old (init Absent WriteOk hash_run1)
                      ''alice'' ''post body'');
          t2 = snd (mark_theme_used sample_lib old t1 ''ai agents'');
          t3 = snd (mark_content_posted sample_lib old t2 ''lesson learned the hard way'' '''' '''');
          t4 = snd (mark_email_content_generated sample_lib old t3
                      ''lesson learned the hard way'' '''' '''')
      in mark_tweet_replied sample_lib old t4 ''1001'' ''2002'')"

section \<open>Properties\<close>

subsection \<open>Classification\<close>

text \<open>\<open>startswith\<close> and \<open>str_in\<close> are the prefix and the substring test.\<close>

lemma startswith_iff: "startswith s p \<longleftrightarrow> (\<exists>b. s = p @ b)"
proof (induction s arbitrary: p)
  case Nil
  show ?case by simp
next
  case (Cons c cs)
  show ?case
  proof (cases p)
    case Nil
    then show ?thesis by simp
  next
    case (Cons q qs)
    then show ?thesis using Cons.IH [of qs] by auto
  qed
qed

lemma str_in_iff: "str_in p s \<longleftrightarrow> (\<exists>a b. s = a @ p @ b)"
proof (induction s)
  case Nil
  show ?case by auto
next
  case (Cons c cs)
  show ?case
  proof
    assume "str_in p (c # cs)"
    then consider "startswith (c # cs) p" | "str_in p cs" by auto
    then show "\<exists>a b. c # cs = a @ p @ b"
    proof cases
      case 1
      then obtain b where "c # cs = p @ b" using startswith_iff by blast
      then have "c # cs = [] @ p @ b" by simp
      then show ?thesis by blast
    next
      case 2
      then obtain a b where "cs = a @ p @ b" using Cons.IH by blast
      then have "c # cs = (c # a) @ p @ b" by simp
      then show ?thesis by blast
    qed
  next
    assume "\<exists>a b. c # cs = a @ p @ b"
    then obtain a b where ab: "c # cs = a @ p @ b" by blast
    show "str_in p (c # cs)"
    proof (cases a)
      case Nil
      then have "startswith (c # cs) p" using ab startswith_iff by auto
      then show ?thesis by simp
    next
      case (Cons x xs)
      then have "cs = xs @ p @ b" using ab by simp
      then have "str_in p cs" using Cons.IH by blast
      then show ?thesis by simp
    qed
  qed
qed

lemma classify_content_type_eq:
  "classify_content_type content0 ctx =
     (if \<exists>k \<in> set news_content_types. str_in k (lower (content0 @ '' '' @ ctx))
      then ''news'' else ''personal'')"
  by (simp add: classify_content_type_def Let_def list_ex_iff)

text \<open>
  C4. Classification is a function of the content and the context alone. Where the
  lower-cased \<open>content + " " + context\<close> contains a news keyword the result is
  \<open>news\<close>, whether or not a personal keyword occurs too; with no news keyword and
  some personal keyword it is \<open>personal\<close>; with neither it is \<open>personal\<close> as well.
\<close>

theorem classification_priority:
  "((\<exists>k \<in> set news_content_types. str_in k (lower (content0 @ '' '' @ ctx)))
      \<longrightarrow> classify_content_type content0 ctx = ''news'') \<and>
   (\<not> (\<exists>k \<in> set news_content_types. str_in k (lower (content0 @ '' '' @ ctx))) \<and>
    (\<exists>k \<in> set similarity_content_types. str_in k (lower (content0 @ '' '' @ ctx)))
      \<longrightarrow> classify_content_type content0 ctx = ''personal'') \<and>
   (\<not> (\<exists>k \<in> set news_content_types. str_in k (lower (content0 @ '' '' @ ctx))) \<and>
    \<not> (\<exists>k \<in> set similarity_content_types. str_in k (lower (content0 @ '' '' @ ctx)))
      \<longrightarrow> classify_content_type content0 ctx = ''personal'')"
  by (simp add: classify_content_type_eq)

text \<open>
  The three cases at concrete texts: one with a news and a personal keyword, one with a
  personal keyword only, one with neither.
\<close>

theorem classification_priority_witness:
  "str_in ''breaking'' (lower (''Breaking: my opinion'' @ '' '' @ ''Launch'')) \<and>
   str_in ''opinion'' (lower (''Breaking: my opinion'' @ '' '' @ ''Launch'')) \<and>
   classify_content_type ''Breaking: my opinion'' ''Launch'' = ''news'' \<and>
   classify_content_type ''A lesson I learned'' '''' = ''personal'' \<and>
   classify_content_type ''Good morning'' '''' = ''personal''"
proof -
  have n1: "\<exists>k \<in> set news_content_types.
      str_in k (lower (''Breaking: my opinion'' @ '' '' @ ''Launch''))"
    by code_simp
  have n2: "\<not> (\<exists>k \<in> set news_content_types.
      str_in k (lower (''A lesson I learned'' @ '' '' @ '''')))"
    by code_simp
  have p2: "\<exists>k \<in> set similarity_content_types.
      str_in k (lower (''A lesson I learned'' @ '' '' @ ''''))"
    by code_simp
  have n3: "\<not> (\<exists>k \<in> set news_content_types.
      str_in k (lower (''Good morning'' @ '' '' @ '''')))"
    by code_simp
  have p3: "\<not> (\<exists>k \<in> set similarity_content_types.
      str_in k (lower (''Good morning'' @ '' '' @ '''')))"
    by code_simp
  have s1: "str_in ''breaking'' (lower (''Breaking: my opinion'' @ '' '' @ ''Launch''))"
    by code_simp
  have s2: "str_in ''opinion'' (lower (''Breaking: my opinion'' @ '' '' @ ''Launch''))"
    by code_simp
  show ?thesis
    using classification_priority [of "''Breaking: my opinion''" "''Launch''"]
      classification_priority [of "''A lesson I learned''" "''''"]
      classification_priority [of "''Good morning''" "''''"]
      n1 n2 p2 n3 p3 s1 s2
    by blast
qed

subsection \<open>Loading\<close>

text \<open>
  C8. \<open>_load_tracker_data\<close> returns a store for every state of the backing file and
  raises nothing: the file's document where there is one, and otherwise the store with
  all five collections empty; an error is logged exactly where the file is there but
  \<open>open\<close> or \<open>json.load\<close> raises. Nothing of such a file is recovered.
\<close>

theorem load_never_raises:
  "fst (load_tracker_data f) = (case f of Stored d \<Rightarrow> d | _ \<Rightarrow> empty_data) \<and>
   snd (load_tracker_data f) = (if f = Unreadable \<or> f = Malformed then [ERROR] else []) \<and>
   data (init f w h) = fst (load_tracker_data f) \<and>
   replied_tweets empty_data = Some Map.empty \<and>
   used_rss_posts empty_data = Some Map.empty \<and>
   email_content empty_data = Some [] \<and>
   posted_content empty_data = Some [] \<and>
   content_themes empty_data = Some Map.empty"
  by (cases f) (simp_all add: load_tracker_data_def file_exists_def read_json_def empty_data_def init_def)

subsection \<open>Pruning\<close>

lemma total_seconds_less:
  "total_seconds d < real_of_int (h * 3600) \<longleftrightarrow> d < h * 3600000000"
proof -
  have "total_seconds d < real_of_int (h * 3600)
      \<longleftrightarrow> real_of_int d < real_of_int (h * 3600) * 1000000"
    by (simp add: total_seconds_def pos_divide_less_eq)
  also have "real_of_int (h * 3600) * 1000000 = real_of_int (h * 3600000000)"
    by simp
  also have "real_of_int d < real_of_int (h * 3600000000) \<longleftrightarrow> d < h * 3600000000"
    by (rule of_int_less_iff)
  finally show ?thesis .
qed

lemma is_old_key_Reply: "is_old_key l c (Reply r s)"
  by (simp add: is_old_key_def)

lemma not_old_key_iff:
  "\<not> is_old_key l c v \<longleftrightarrow> (\<exists>s ts. v = Stamp s \<and> fromisoformat l s = Inr ts \<and> c \<le> ts)"
  by (cases v) (auto simp: is_old_key_def split: sum.splits)

lemma clean_dict_Some_iff:
  "clean_dict l c m k = Some v \<longleftrightarrow> m k = Some v \<and> \<not> is_old_key l c v"
  by (auto simp: clean_dict_def split: option.splits)

lemma clean_dict_None_iff:
  "clean_dict l c m k = None \<longleftrightarrow> (case m k of None \<Rightarrow> True | Some v \<Rightarrow> is_old_key l c v)"
  by (auto simp: clean_dict_def split: option.splits)

lemma clean_dict_empty: "clean_dict l c Map.empty = Map.empty"
  by (simp add: clean_dict_def)

lemma clean_list_Inr:
  "clean_list l c items = Inr kept \<Longrightarrow> kept = filter (fresh_entry l c) items"
proof (induction items arbitrary: kept)
  case Nil
  then show ?case by simp
next
  case (Cons item items)
  then show ?case
    by (auto simp: fresh_entry_def split: sum.splits if_splits)
qed

lemma clean_list_append:
  "clean_list l c (xs @ ys) =
     (case clean_list l c xs of
        Inl e \<Rightarrow> Inl e
      | Inr k1 \<Rightarrow> (case clean_list l c ys of Inl e \<Rightarrow> Inl e | Inr k2 \<Rightarrow> Inr (k1 @ k2)))"
  by (induction xs) (auto split: sum.splits)


lemma map_sum_id_Some_Inr:
  "map_sum id Some x = Inr y \<longleftrightarrow> (\<exists>k. x = Inr k \<and> y = Some k)"
  by (cases x) auto

text \<open>What a pruning pass that raises nothing leaves in each collection.\<close>

lemma clean_old_entries_None:
  assumes "clean_old_entries l now d0 = (None, d)"
  shows "replied_tweets d = map_option (clean_dict l (now - timedelta_days 30)) (replied_tweets d0)"
    and "used_rss_posts d = map_option (clean_dict l (now - timedelta_days 7)) (used_rss_posts d0)"
    and "content_themes d = map_option (clean_dict l (now - timedelta_hours 6)) (content_themes d0)"
    and "rel_option (\<lambda>items kept. clean_list l (now - timedelta_days 14) items = Inr kept)
           (email_content d0) (email_content d)"
    and "rel_option (\<lambda>items kept. clean_list l (now - timedelta_days 30) items = Inr kept)
           (posted_content d0) (posted_content d)"
  using assms
  by (auto simp: clean_old_entries_def Let_def map_sum_id_Some_Inr
      split: option.splits sum.splits)

lemma clean_old_entries_fst_cong:
  assumes "email_content d = email_content d'" and "posted_content d = posted_content d'"
  shows "fst (clean_old_entries l now d) = fst (clean_old_entries l now d')"
  using assms
  by (simp add: clean_old_entries_def Let_def split: option.splits sum.splits)

text \<open>
  C1. The claim: a pruning pass removes from each collection exactly the entries older
  than its window (30 days for \<open>replied_tweets\<close>), and every entry within its window
  stays. The code does not do that for \<open>replied_tweets\<close>: \<open>mark_tweet_replied\<close> stores
  a dictionary as the value, the pass gives that value to \<open>fromisoformat\<close>, which raises
  \<open>TypeError\<close>, and the handler takes the key for an old one. The theorem runs the pass at
  the very instant at which the reply was recorded, on a tracker that holds nothing else:
  the reply is gone and the store is empty again.
\<close>

theorem prune_drops_fresh_reply:
  "clean_old_entries l now
     (data (mark_tweet_replied l now (init Absent WriteOk h) ''1001'' ''2002''))
     = (None, empty_data)"
  by (simp add: clean_old_entries_def mark_tweet_replied_def init_def load_tracker_data_def file_exists_def
      save_tracker_data_def empty_data_def clean_dict_def is_old_key_def fun_eq_iff Let_def)

subsection \<open>Sample values\<close>

lemmas mark_defs = mark_rss_post_used_def mark_theme_used_def mark_content_posted_def
  mark_email_content_generated_def mark_tweet_replied_def save_tracker_data_def init_def
  load_tracker_data_def file_exists_def empty_data_def

lemma sample_classify: "classify_content_type ''lesson learned the hard way'' '''' = ''personal''"
  by code_simp

lemma classify_lesson: "classify_content_type ''lesson learned'' '''' = ''personal''"
  by code_simp

lemma sample_hash:
  "content_hash hash_run1 ''alice'' ''post body'' = ''alice:123457''"
  "content_hash hash_run2 ''alice'' ''post body'' = ''alice:6033637''"
  by (simp_all add: content_hash_def str_int_def hash_run1_def hash_run2_def str_nat.simps)

lemma sample_iso: "isoformat sample_lib 1735689600000000 = ''2025-01-01T00:00:00''"
  "isoformat sample_lib 1748779200000000 = ''2025-06-01T12:00:00''"
  "fromisoformat sample_lib ''2025-01-01T00:00:00'' = Inr 1735689600000000"
  "fromisoformat sample_lib ''2025-06-01T12:00:00'' = Inr 1748779200000000"
  "fromisoformat sample_lib ''not-a-date'' = Inl ValueError"
  by (simp_all add: sample_lib_def)

lemma sample_tracker_data:
  "data sample_tracker =
     \<lparr>replied_tweets = Some [''1001'' \<mapsto> Reply ''2002'' ''2025-01-01T00:00:00''],
      used_rss_posts = Some [''alice:123457'' \<mapsto> Stamp ''2025-01-01T00:00:00''],
      email_content = Some [\<lparr>content = ''lesson learned the hard way'',
        content_type = ''personal'', original_type = '''', entry_context = '''',
        timestamp = Some ''2025-01-01T00:00:00''\<rparr>],
      posted_content = Some [\<lparr>content = ''lesson learned the hard way'',
        content_type = ''personal'', original_type = '''', entry_context = '''',
        timestamp = Some ''2025-01-01T00:00:00''\<rparr>],
      content_themes = Some [''ai agents'' \<mapsto> Stamp ''2025-01-01T00:00:00'']\<rparr>"
  by (simp add: sample_tracker_def mark_defs Let_def sample_classify sample_hash sample_iso)


lemma sample_tracker_file:
  "tracker_file sample_tracker = Stored (data sample_tracker)" "disk sample_tracker = WriteOk"
  "process_hash sample_tracker = hash_run1"
  by (simp_all add: sample_tracker_def mark_defs Let_def)

lemma init_prune_ok:
  "fst (clean_old_entries l now (data (init Absent WriteOk h))) = None"
  by (simp add: mark_defs clean_old_entries_def Let_def)

lemma init_collections:
  "content_themes (data (init Absent WriteOk h)) = Some Map.empty"
  "used_rss_posts (data (init Absent WriteOk h)) = Some Map.empty"
  "posted_content (data (init Absent WriteOk h)) = Some []"
  by (simp_all add: mark_defs)

lemma classify_a: "classify_content_type ''a'' '''' = ''personal''"
  by code_simp

lemma preprocess_a: "preprocess_content ''a'' = ''a''"
  by (simp add: preprocess_content_def lower_def strip_def sub_special_def is_ident_def
      is_alpha_def is_digit_def is_space_def lower_char_def is_url_char_def)

lemma preprocess_lesson:
  "preprocess_content ''lesson learned'' = ''lesson learned''"
  by (simp add: preprocess_content_def lower_def strip_def sub_special_def is_ident_def
      is_alpha_def is_digit_def is_space_def lower_char_def is_url_char_def)

lemma sample_query:
  "has_used_rss_post sample_lib 1748779200000000 sample_tracker ''alice'' ''post body''
     = (Inr False, sample_tracker\<lparr>data := empty_data\<rparr>)"
  by (simp add: has_used_rss_post_def sample_tracker_data clean_old_entries_def Let_def
      clean_dict_def is_old_key_def entry_time_def sample_iso timedelta_days_def
      timedelta_hours_def empty_data_def fun_eq_iff)

subsection \<open>News bypass\<close>

text \<open>
  Where the pruning pass raises nothing, a text with a news keyword is no duplicate,
  whatever the two lists hold. The vectorizer is not called: the log gains one debug
  line and no warning.
\<close>

lemma news_bypass:
  assumes "\<exists>k \<in> set news_content_types. str_in k (lower (content0 @ '' '' @ ctx))"
    and "fst (clean_old_entries l now (data t)) = None"
  shows "has_posted_similar_content l now t content0 ctype ctx
           = (Inr False, t\<lparr>data := snd (clean_old_entries l now (data t)),
                            logged := logged t @ [DEBUG]\<rparr>) \<and>
         has_generated_similar_email l now t content0 ctype ctx
           = (Inr False, t\<lparr>data := snd (clean_old_entries l now (data t)),
                            logged := logged t @ [DEBUG]\<rparr>)"
proof -
  have "classify_content_type content0 ctx = ''news''"
    using assms(1) by (simp add: classify_content_type_eq)
  moreover obtain d where "clean_old_entries l now (data t) = (None, d)"
    using assms(2) by (cases "clean_old_entries l now (data t)") simp
  ultimately show ?thesis
    by (simp add: has_posted_similar_content_def has_generated_similar_email_def)
qed

text \<open>
  C2. The claim: for a text with a news keyword both checks return \<open>False\<close>,
  regardless of what the collections hold. The code does not do that for every
  content of the lists. The pruning pass runs before the classification; its list
  comprehension gives every timestamp to \<open>fromisoformat\<close> and catches nothing, where
  the dictionary branch of the same pass catches \<open>ValueError\<close> and \<open>TypeError\<close>.
  The theorem loads a file in which the one entry of \<open>posted_content\<close> has the
  timestamp \<^verbatim>\<open>'not-a-date'\<close>: both checks of a news text raise \<open>ValueError\<close>.
\<close>

theorem news_check_raises_on_bad_timestamp:
  "classify_content_type ''Funding round announced'' '''' = ''news'' \<and>
   fromisoformat sample_lib ''not-a-date'' = Inl ValueError \<and>
   fst (has_posted_similar_content sample_lib 1748779200000000
          (init (Stored (empty_data\<lparr>posted_content := Some
             [\<lparr>content = ''Funding round announced'', content_type = ''news'',
               original_type = '''', entry_context = '''',
               timestamp = Some ''not-a-date''\<rparr>]\<rparr>)) WriteOk hash_run1)
          ''Funding round announced'' '''' '''') = Inl ValueError \<and>
   fst (has_generated_similar_email sample_lib 1748779200000000
          (init (Stored (empty_data\<lparr>posted_content := Some
             [\<lparr>content = ''Funding round announced'', content_type = ''news'',
               original_type = '''', entry_context = '''',
               timestamp = Some ''not-a-date''\<rparr>]\<rparr>)) WriteOk hash_run1)
          ''Funding round announced'' '''' '''') = Inl ValueError"
proof -
  have c: "classify_content_type ''Funding round announced'' '''' = ''news''"
    by code_simp
  let ?d = "empty_data\<lparr>posted_content := Some
      [\<lparr>content = ''Funding round announced'', content_type = ''news'',
        original_type = '''', entry_context = '''', timestamp = Some ''not-a-date''\<rparr>]\<rparr>"
  have p: "fst (clean_old_entries sample_lib 1748779200000000 (data (init (Stored ?d) WriteOk hash_run1)))
      = Some ValueError"
    by (simp add: init_def load_tracker_data_def file_exists_def read_json_def
        clean_old_entries_def Let_def empty_data_def entry_time_def sample_iso)
  obtain d' where q: "clean_old_entries sample_lib 1748779200000000
      (data (init (Stored ?d) WriteOk hash_run1)) = (Some ValueError, d')"
    using p
    by (cases "clean_old_entries sample_lib 1748779200000000
        (data (init (Stored ?d) WriteOk hash_run1))") simp
  have "fst (has_posted_similar_content sample_lib 1748779200000000
      (init (Stored ?d) WriteOk hash_run1) ''Funding round announced'' '''' '''') = Inl ValueError"
    unfolding has_posted_similar_content_def q by simp
  moreover have "fst (has_generated_similar_email sample_lib 1748779200000000
      (init (Stored ?d) WriteOk hash_run1) ''Funding round announced'' '''' '''') = Inl ValueError"
    unfolding has_generated_similar_email_def q by simp
  ultimately show ?thesis
    using c by (simp add: sample_iso)
qed

subsection \<open>Vectorizer failure\<close>

lemma max_of_ge: "x \<in> set xs \<Longrightarrow> x \<le> max_of xs"
proof (cases xs)
  case Nil
  assume "x \<in> set xs"
  with Nil show ?thesis by simp
next
  case (Cons y ys)
  assume x: "x \<in> set xs"
  have "max_of xs = Max (set xs)"
    using Cons Max.set_eq_fold [of y ys] by simp
  then show ?thesis using x by simp
qed

lemma calculate_similarity_raises:
  assumes "fit_transform l (map preprocess_content (new_content # existing)) = Inl e"
  shows "calculate_similarity l new_content existing = (0, if existing = [] then [] else [WARNING])"
  using assms by (simp add: calculate_similarity_def)

text \<open>
  C7. Where the vectorizer raises on the corpus of a candidate and the existing
  texts, \<open>_calculate_similarity\<close> catches it, logs a warning and returns 0. Each of
  the two duplicate checks then returns \<open>False\<close> and raises nothing, whatever the
  vectorizer does on the corpus of the other check. A check computes the similarity
  only once its pruning pass has returned, hence the hypothesis that the pass raises
  nothing.
\<close>

theorem vectorizer_failure_not_duplicate:
  assumes "fst (clean_old_entries l now (data t)) = None"
  shows "(fit_transform l (map preprocess_content (content0 # existing)) = Inl e
            \<longrightarrow> calculate_similarity l content0 existing
                  = (0, if existing = [] then [] else [WARNING])) \<and>
         (posted_content (snd (clean_old_entries l now (data t))) = Some items \<and>
          fit_transform l (map preprocess_content (content0 # map content items)) = Inl e
            \<longrightarrow> fst (has_posted_similar_content l now t content0 ctype ctx) = Inr False) \<and>
         (email_content (snd (clean_old_entries l now (data t))) = Some items' \<and>
          fit_transform l (map preprocess_content (content0 # map content items')) = Inl e'
            \<longrightarrow> fst (has_generated_similar_email l now t content0 ctype ctx) = Inr False)"
proof -
  obtain d where d: "clean_old_entries l now (data t) = (None, d)"
    using assms by (cases "clean_old_entries l now (data t)") simp
  have a: "fit_transform l (map preprocess_content (content0 # existing)) = Inl e
      \<longrightarrow> calculate_similarity l content0 existing
            = (0, if existing = [] then [] else [WARNING])"
    using calculate_similarity_raises by blast
  have b: "posted_content (snd (clean_old_entries l now (data t))) = Some items \<and>
      fit_transform l (map preprocess_content (content0 # map content items)) = Inl e
        \<longrightarrow> fst (has_posted_similar_content l now t content0 ctype ctx) = Inr False"
  proof (intro impI, elim conjE)
    assume h: "posted_content (snd (clean_old_entries l now (data t))) = Some items"
      "fit_transform l (map preprocess_content (content0 # map content items)) = Inl e"
    have "calculate_similarity l content0 (map content items)
        = (0, if map content items = [] then [] else [WARNING])"
      using h(2) by (rule calculate_similarity_raises)
    then show "fst (has_posted_similar_content l now t content0 ctype ctx) = Inr False"
      using d h(1)
      by (simp add: has_posted_similar_content_def similarity_threshold_def Let_def)
  qed
  have c: "email_content (snd (clean_old_entries l now (data t))) = Some items' \<and>
      fit_transform l (map preprocess_content (content0 # map content items')) = Inl e'
        \<longrightarrow> fst (has_generated_similar_email l now t content0 ctype ctx) = Inr False"
  proof (intro impI, elim conjE)
    assume h: "email_content (snd (clean_old_entries l now (data t))) = Some items'"
      "fit_transform l (map preprocess_content (content0 # map content items')) = Inl e'"
    have "calculate_similarity l content0 (map content items')
        = (0, if map content items' = [] then [] else [WARNING])"
      using h(2) by (rule calculate_similarity_raises)
    then show "fst (has_generated_similar_email l now t content0 ctype ctx) = Inr False"
      using d h(1)
      by (simp add: has_generated_similar_email_def similarity_threshold_def Let_def)
  qed
  show ?thesis
    by (intro conjI a b c)
qed

text \<open>
  The text \<^verbatim>\<open>'a'\<close> checked against a posted list that holds \<^verbatim>\<open>'a'\<close> while the
  email list holds a text with terms, and the other way round: the vectorizer raises
  on one corpus only.
\<close>

theorem vectorizer_failure_not_duplicate_witness:
  "fit_transform sample_lib (map preprocess_content [''a'', ''a'']) = Inl ValueError \<and>
   fit_transform sample_lib (map preprocess_content [''a'', ''lesson learned'']) \<noteq> Inl ValueError \<and>
   fst (has_posted_similar_content sample_lib 1748779200000000
          (snd (mark_email_content_generated sample_lib 1748779200000000
             (snd (mark_content_posted sample_lib 1748779200000000
                     (init Absent WriteOk hash_run1) ''a'' '''' ''''))
             ''lesson learned'' '''' ''''))
          ''a'' '''' '''') = Inr False \<and>
   fst (has_generated_similar_email sample_lib 1748779200000000
          (snd (mark_email_content_generated sample_lib 1748779200000000
             (snd (mark_content_posted sample_lib 1748779200000000
                     (init Absent WriteOk hash_run1) ''lesson learned'' '''' ''''))
             ''a'' '''' ''''))
          ''a'' '''' '''') = Inr False"
proof -
  let ?ta = "snd (mark_email_content_generated sample_lib 1748779200000000
             (snd (mark_content_posted sample_lib 1748779200000000
                     (init Absent WriteOk hash_run1) ''a'' '''' ''''))
             ''lesson learned'' '''' '''')"
  let ?tb = "snd (mark_email_content_generated sample_lib 1748779200000000
             (snd (mark_content_posted sample_lib 1748779200000000
                     (init Absent WriteOk hash_run1) ''lesson learned'' '''' ''''))
             ''a'' '''' '''')"
  let ?a = "\<lparr>content = ''a'', content_type = ''personal'', original_type = '''',
      entry_context = '''', timestamp = Some ''2025-06-01T12:00:00''\<rparr>"
  let ?b = "\<lparr>content = ''lesson learned'', content_type = ''personal'', original_type = '''',
      entry_context = '''', timestamp = Some ''2025-06-01T12:00:00''\<rparr>"
  have da: "clean_old_entries sample_lib 1748779200000000 (data ?ta)
      = (None, empty_data\<lparr>email_content := Some [?b], posted_content := Some [?a]\<rparr>)"
    by (simp add: mark_defs Let_def clean_old_entries_def clean_dict_def entry_time_def
        sample_iso timedelta_days_def classify_a classify_lesson)
  have db: "clean_old_entries sample_lib 1748779200000000 (data ?tb)
      = (None, empty_data\<lparr>email_content := Some [?a], posted_content := Some [?b]\<rparr>)"
    by (simp add: mark_defs Let_def clean_old_entries_def clean_dict_def entry_time_def
        sample_iso timedelta_days_def classify_a classify_lesson)
  have r: "fit_transform sample_lib (map preprocess_content (''a'' # map content [?a]))
      = Inl ValueError"
    by (simp add: preprocess_a fit_transform_def sample_lib_def)
  have n: "fit_transform sample_lib (map preprocess_content [''a'', ''lesson learned''])
      \<noteq> Inl ValueError"
    by (simp add: preprocess_a preprocess_lesson fit_transform_def sample_lib_def Let_def)
  have pa: "fst (has_posted_similar_content sample_lib 1748779200000000 ?ta ''a'' '''' '''')
      = Inr False"
    using vectorizer_failure_not_duplicate [where l = sample_lib and now = 1748779200000000
        and t = ?ta and ?content0.0 = "''a''" and items = "[?a]" and e = ValueError
        and ctype = "''''" and ctx = "''''"] r
    by (simp add: da)
  have pb: "fst (has_generated_similar_email sample_lib 1748779200000000 ?tb ''a'' '''' '''')
      = Inr False"
    using vectorizer_failure_not_duplicate [where l = sample_lib and now = 1748779200000000
        and t = ?tb and ?content0.0 = "''a''" and items' = "[?a]" and e' = ValueError
        and ctype = "''''" and ctx = "''''"] r
    by (simp add: db)
  show ?thesis
    using r n pa pb by simp
qed

subsection \<open>Theme cooldown\<close>

lemma has_used_theme_recently_eq:
  assumes "fst (clean_old_entries l now (data t)) = None"
    and "content_themes (data t) = Some m"
  shows "fst (has_used_theme_recently l now now' t theme n) =
           Inr (\<exists>s ts. clean_dict l (now - timedelta_hours 6) m theme = Some (Stamp s) \<and>
                  fromisoformat l s = Inr ts \<and> now' - ts < timedelta_hours n)"
proof -
  obtain d where d: "clean_old_entries l now (data t) = (None, d)"
    using assms(1) by (cases "clean_old_entries l now (data t)") simp
  have th: "content_themes d = Some (clean_dict l (now - timedelta_hours 6) m)"
    using clean_old_entries_None(3) [OF d] assms(2) by simp
  show ?thesis
  proof (cases "clean_dict l (now - timedelta_hours 6) m theme")
    case None
    then show ?thesis using d th by (simp add: has_used_theme_recently_def)
  next
    case (Some v)
    then have "\<not> is_old_key l (now - timedelta_hours 6) v"
      by (simp add: clean_dict_Some_iff)
    then obtain s ts where v: "v = Stamp s" "fromisoformat l s = Inr ts"
      using not_old_key_iff by blast
    have "total_seconds (now' - ts) < real_of_int (n * 3600) \<longleftrightarrow> now' - ts < timedelta_hours n"
      unfolding timedelta_hours_def by (rule total_seconds_less)
    then show ?thesis
      using d th Some v by (simp add: has_used_theme_recently_def)
  qed
qed

lemma mark_theme_used_data:
  assumes "content_themes (data t) = Some m"
  shows "data (snd (mark_theme_used l now0 t theme))
           = (data t)\<lparr>content_themes := Some (m(theme \<mapsto> Stamp (isoformat l now0)))\<rparr>"
  using assms
  by (cases "disk t") (simp_all add: mark_theme_used_def save_tracker_data_def Let_def)

text \<open>
  C6. Where the pruning pass raises nothing and \<open>content_themes\<close> is there,
  \<open>has_used_theme_recently\<close> returns true exactly when the theme is in the map after
  the six-hour prune and the time from its recorded instant to \<open>now'\<close> is less than
  \<open>n\<close> hours. After \<open>mark_theme_used\<close> at \<open>now0\<close>, a check with the window of one
  hour gives true while less than an hour has passed (and the prune ran within six
  hours), and false from one hour on, pruned or not.
\<close>

theorem theme_cooldown:
  assumes "fst (clean_old_entries l now (data t)) = None"
    and "content_themes (data t) = Some m"
    and "fromisoformat l (isoformat l now0) = Inr now0"
  shows "fst (has_used_theme_recently l now now' t theme n) =
           Inr (\<exists>s ts. clean_dict l (now - timedelta_hours 6) m theme = Some (Stamp s) \<and>
                  fromisoformat l s = Inr ts \<and> now' - ts < timedelta_hours n) \<and>
         (now - timedelta_hours 6 \<le> now0 \<and> now' - now0 < timedelta_hours 1 \<longrightarrow>
            fst (has_used_theme_recently l now now' (snd (mark_theme_used l now0 t theme)) theme 1)
              = Inr True) \<and>
         (timedelta_hours 1 \<le> now' - now0 \<longrightarrow>
            fst (has_used_theme_recently l now now' (snd (mark_theme_used l now0 t theme)) theme 1)
              = Inr False)"
proof -
  let ?t1 = "snd (mark_theme_used l now0 t theme)"
  let ?m1 = "m(theme \<mapsto> Stamp (isoformat l now0))"
  have d1: "data ?t1 = (data t)\<lparr>content_themes := Some ?m1\<rparr>"
    using assms(2) by (rule mark_theme_used_data)
  have "fst (clean_old_entries l now (data ?t1)) = fst (clean_old_entries l now (data t))"
    by (rule clean_old_entries_fst_cong) (simp_all add: d1)
  then have ok1: "fst (clean_old_entries l now (data ?t1)) = None"
    using assms(1) by simp
  have th1: "content_themes (data ?t1) = Some ?m1"
    by (simp add: d1)
  have r: "fst (has_used_theme_recently l now now' ?t1 theme 1) =
      Inr (\<exists>s ts. clean_dict l (now - timedelta_hours 6) ?m1 theme = Some (Stamp s) \<and>
             fromisoformat l s = Inr ts \<and> now' - ts < timedelta_hours 1)"
    using ok1 th1 by (rule has_used_theme_recently_eq)
  have k: "clean_dict l (now - timedelta_hours 6) ?m1 theme
      = (if now - timedelta_hours 6 \<le> now0 then Some (Stamp (isoformat l now0)) else None)"
    using assms(3) by (simp add: clean_dict_def is_old_key_def)
  have a: "now - timedelta_hours 6 \<le> now0 \<and> now' - now0 < timedelta_hours 1 \<longrightarrow>
      fst (has_used_theme_recently l now now' ?t1 theme 1) = Inr True"
    using r k assms(3) by simp
  have b: "timedelta_hours 1 \<le> now' - now0 \<longrightarrow>
      fst (has_used_theme_recently l now now' ?t1 theme 1) = Inr False"
    using r k assms(3) by auto
  show ?thesis
    using has_used_theme_recently_eq [OF assms(1,2)] a b by simp
qed

text \<open>A theme checked ten minutes and two hours after it was marked.\<close>

theorem theme_cooldown_witness:
  "fst (has_used_theme_recently sample_lib 1748779800000000 1748779801000000
          (snd (mark_theme_used sample_lib 1748779200000000 (init Absent WriteOk hash_run1) ''ai agents''))
          ''ai agents'' 1) = Inr True \<and>
   fst (has_used_theme_recently sample_lib 1748786399000000 1748786400000000
          (snd (mark_theme_used sample_lib 1748779200000000 (init Absent WriteOk hash_run1) ''ai agents''))
          ''ai agents'' 1) = Inr False"
proof -
  have r: "fromisoformat sample_lib (isoformat sample_lib 1748779200000000)
      = Inr 1748779200000000"
    by (simp add: sample_iso)
  have a: "(1748779800000000::int) - timedelta_hours 6 \<le> 1748779200000000 \<and>
      (1748779801000000::int) - 1748779200000000 < timedelta_hours 1"
    by (simp add: timedelta_hours_def)
  have b: "timedelta_hours 1 \<le> (1748786400000000::int) - 1748779200000000"
    by (simp add: timedelta_hours_def)
  show ?thesis
    using theme_cooldown [OF init_prune_ok init_collections(1) r,
        where now = 1748779800000000 and now' = 1748779801000000 and theme = "''ai agents''"]
      theme_cooldown [OF init_prune_ok init_collections(1) r,
        where now = 1748786399000000 and now' = 1748786400000000 and theme = "''ai agents''"]
      a b
    by blast
qed

subsection \<open>RSS fingerprints\<close>

lemma digit_char: "k < 10 \<Longrightarrow> is_digit (''0123456789'' ! k)"
proof -
  assume "k < 10"
  then have "k \<in> {0, 1, 2, 3, 4, 5, 6, 7, 8, 9}" by auto
  then show ?thesis by (auto simp: is_digit_def)
qed

lemma str_nat_digits: "ch \<in> set (str_nat n) \<Longrightarrow> is_digit ch"
proof (induction n arbitrary: ch rule: str_nat.induct)
  case (1 n)
  show ?case
  proof (cases "n < 10")
    case True
    then have "str_nat n = [''0123456789'' ! n]" by (simp add: str_nat.simps)
    then show ?thesis using "1.prems" digit_char [OF True] by simp
  next
    case False
    then have e: "str_nat n = str_nat (n div 10) @ [''0123456789'' ! (n mod 10)]"
      by (subst str_nat.simps) simp
    have "n mod 10 < 10" by simp
    then have "is_digit (''0123456789'' ! (n mod 10))" by (rule digit_char)
    then show ?thesis using "1.prems" "1.IH" [OF False] e by auto
  qed
qed

lemma colon_not_in_str_nat: "CHR '':'' \<notin> set (str_nat n)"
proof
  assume "CHR '':'' \<in> set (str_nat n)"
  then have "is_digit (CHR '':'')" by (rule str_nat_digits)
  then show False by (simp add: is_digit_def)
qed

lemma separator_unique:
  assumes "a @ x # b = a' @ x # b'" and "x \<notin> set b" and "x \<notin> set b'"
  shows "a = a'"
  using assms
proof (induction a arbitrary: a')
  case Nil
  then show ?case by (cases a') auto
next
  case (Cons y ys)
  then show ?case by (cases a') auto
qed

lemma content_hash_bucket:
  "content_hash h u c = u @ '':'' @ str_nat (nat (h c mod 10000000))"
  by (simp add: content_hash_def str_int_def)

lemma content_hash_inj:
  assumes "content_hash h u1 c1 = content_hash h' u2 c2"
  shows "u1 = u2"
proof -
  have "u1 @ CHR '':'' # str_nat (nat (h c1 mod 10000000))
      = u2 @ CHR '':'' # str_nat (nat (h' c2 mod 10000000))"
    using assms by (simp add: content_hash_bucket)
  then show ?thesis
    by (rule separator_unique) (rule colon_not_in_str_nat)+
qed

lemma mark_rss_post_used_data:
  assumes "used_rss_posts (data t) = Some m"
  shows "data (snd (mark_rss_post_used l now0 t u c))
           = (data t)\<lparr>used_rss_posts :=
               Some (m(content_hash (process_hash t) u c \<mapsto> Stamp (isoformat l now0)))\<rparr>"
  using assms
  by (cases "disk t") (simp_all add: mark_rss_post_used_def save_tracker_data_def Let_def)

lemma mark_rss_post_used_hash:
  "process_hash (snd (mark_rss_post_used l now0 t u c)) = process_hash t"
  by (cases "disk t")
    (simp_all add: mark_rss_post_used_def save_tracker_data_def Let_def split: option.splits)

lemma has_used_rss_post_eq:
  assumes "fst (clean_old_entries l now (data t)) = None"
    and "used_rss_posts (data t) = Some m"
  shows "fst (has_used_rss_post l now t u c) =
           Inr (clean_dict l (now - timedelta_days 7) m (content_hash (process_hash t) u c) \<noteq> None)"
proof -
  obtain d where d: "clean_old_entries l now (data t) = (None, d)"
    using assms(1) by (cases "clean_old_entries l now (data t)") simp
  have "used_rss_posts d = Some (clean_dict l (now - timedelta_days 7) m)"
    using clean_old_entries_None(2) [OF d] assms(2) by simp
  then show ?thesis
    using d by (simp add: has_used_rss_post_def)
qed

text \<open>
  Within one process the fingerprint does what it is meant to do. It is the user
  name, a colon and the decimal digits of a bucket below 10000000, so two different
  user names never share a fingerprint, whatever the contents and the salt. A post
  marked at \<open>now0\<close> is found again by the same tracker object as long as the pruning
  pass runs within seven days of \<open>now0\<close> and raises nothing.
\<close>

lemma rss_fingerprint_same_process:
  assumes "fst (clean_old_entries l now (data t)) = None"
    and "used_rss_posts (data t) = Some m"
    and "fromisoformat l (isoformat l now0) = Inr now0"
    and "now - timedelta_days 7 \<le> now0"
  shows "fst (has_used_rss_post l now (snd (mark_rss_post_used l now0 t u c)) u c) = Inr True \<and>
         (u1 \<noteq> u2 \<longrightarrow> content_hash h u1 c1 \<noteq> content_hash h' u2 c2) \<and>
         (\<exists>k < 10000000. content_hash h u c = u @ '':'' @ str_nat k \<and>
            list_all is_digit (str_nat k))"
proof -
  let ?t1 = "snd (mark_rss_post_used l now0 t u c)"
  let ?m1 = "m(content_hash (process_hash t) u c \<mapsto> Stamp (isoformat l now0))"
  have d1: "data ?t1 = (data t)\<lparr>used_rss_posts := Some ?m1\<rparr>"
    using assms(2) by (rule mark_rss_post_used_data)
  have "fst (clean_old_entries l now (data ?t1)) = fst (clean_old_entries l now (data t))"
    by (rule clean_old_entries_fst_cong) (simp_all add: d1)
  then have ok1: "fst (clean_old_entries l now (data ?t1)) = None"
    using assms(1) by simp
  have "used_rss_posts (data ?t1) = Some ?m1"
    by (simp add: d1)
  with ok1 have "fst (has_used_rss_post l now ?t1 u c) =
      Inr (clean_dict l (now - timedelta_days 7) ?m1 (content_hash (process_hash ?t1) u c) \<noteq> None)"
    by (rule has_used_rss_post_eq)
  moreover have "clean_dict l (now - timedelta_days 7) ?m1 (content_hash (process_hash t) u c)
      \<noteq> None"
    using assms(3,4) by (simp add: clean_dict_def is_old_key_def)
  ultimately have a: "fst (has_used_rss_post l now ?t1 u c) = Inr True"
    by (simp add: mark_rss_post_used_hash)
  have b: "u1 \<noteq> u2 \<longrightarrow> content_hash h u1 c1 \<noteq> content_hash h' u2 c2"
    using content_hash_inj by blast
  have "nat (h c mod 10000000) < 10000000"
    by simp
  moreover have "list_all is_digit (str_nat (nat (h c mod 10000000)))"
    using str_nat_digits by (simp add: list_all_iff)
  ultimately have c: "\<exists>k < 10000000. content_hash h u c = u @ '':'' @ str_nat k \<and>
      list_all is_digit (str_nat k)"
    using content_hash_bucket by blast
  show ?thesis using a b c by simp
qed

text \<open>
  C9. The claim: the fingerprint of a user name and a content is always the same
  string, so that a post marked as used is found again. The code takes the built-in
  \<open>hash\<close> of the content, which Python salts anew for every process, and keeps the
  fingerprints in the file for seven days. A post marked in one run is found by that
  run one day later; after a restart the tracker loads the file, computes another
  fingerprint for the same post and does not find it.
\<close>

theorem rss_lookup_fails_after_restart:
  "content_hash hash_run1 ''alice'' ''post body'' = ''alice:123457'' \<and>
   content_hash hash_run2 ''alice'' ''post body'' = ''alice:6033637'' \<and>
   used_rss_posts (data (init (tracker_file (snd (mark_rss_post_used sample_lib
      1748779200000000 (init Absent WriteOk hash_run1) ''alice'' ''post body'')))
      WriteOk hash_run2))
     = Some [''alice:123457'' \<mapsto> Stamp ''2025-06-01T12:00:00''] \<and>
   fst (has_used_rss_post sample_lib 1748865600000000
          (snd (mark_rss_post_used sample_lib 1748779200000000
                  (init Absent WriteOk hash_run1) ''alice'' ''post body''))
          ''alice'' ''post body'') = Inr True \<and>
   fst (has_used_rss_post sample_lib 1748865600000000
          (init (tracker_file (snd (mark_rss_post_used sample_lib 1748779200000000
                  (init Absent WriteOk hash_run1) ''alice'' ''post body'')))
             WriteOk hash_run2)
          ''alice'' ''post body'') = Inr False"
proof -
  let ?t1 = "snd (mark_rss_post_used sample_lib 1748779200000000
      (init Absent WriteOk hash_run1) ''alice'' ''post body'')"
  let ?d = "empty_data\<lparr>used_rss_posts :=
      Some [''alice:123457'' \<mapsto> Stamp ''2025-06-01T12:00:00'']\<rparr>"
  have t1: "data ?t1 = ?d" "tracker_file ?t1 = Stored ?d" "process_hash ?t1 = hash_run1"
    by (simp_all add: mark_defs Let_def sample_hash sample_iso)
  have t2: "data (init (tracker_file ?t1) WriteOk hash_run2) = ?d"
    "process_hash (init (tracker_file ?t1) WriteOk hash_run2) = hash_run2"
    unfolding t1(2)
    by (simp_all add: init_def load_tracker_data_def file_exists_def read_json_def)
  have p: "clean_old_entries sample_lib 1748865600000000 ?d = (None, ?d)"
    by (simp add: clean_old_entries_def Let_def clean_dict_def is_old_key_def empty_data_def
        sample_iso timedelta_days_def timedelta_hours_def fun_eq_iff)
  have a: "fst (has_used_rss_post sample_lib 1748865600000000 ?t1 ''alice'' ''post body'')
      = Inr True"
    unfolding has_used_rss_post_def t1 p by (simp add: sample_hash)
  have b: "fst (has_used_rss_post sample_lib 1748865600000000
      (init (tracker_file ?t1) WriteOk hash_run2) ''alice'' ''post body'') = Inr False"
    unfolding has_used_rss_post_def t2 p by (simp add: sample_hash)
  show ?thesis
    using a b by (simp add: sample_hash t2 empty_data_def)
qed

subsection \<open>Queries and the backing file\<close>

text \<open>
  C10. None of the six queries changes the backing file, also where it prunes the data
  in memory or raises. A mark operation that returns, on a disk that accepts the write,
  leaves in the file the data as it then is in memory.
\<close>

theorem queries_do_not_save:
  "tracker_file (snd (has_posted_similar_content l now t c ty x)) = tracker_file t \<and>
   tracker_file (snd (has_generated_similar_email l now t c ty x)) = tracker_file t \<and>
   tracker_file (snd (has_replied_to_tweet t tw)) = tracker_file t \<and>
   tracker_file (snd (has_used_rss_post l now t u c)) = tracker_file t \<and>
   tracker_file (snd (has_used_theme_recently l now now' t th n)) = tracker_file t \<and>
   tracker_file (snd (get_statistics l now t)) = tracker_file t \<and>
   (disk t = WriteOk \<longrightarrow>
      tracker_file (mark_tweet_replied l now t tw r)
        = Stored (data (mark_tweet_replied l now t tw r)) \<and>
      (fst (mark_content_posted l now t c ty x) = Inr () \<longrightarrow>
         tracker_file (snd (mark_content_posted l now t c ty x))
           = Stored (data (snd (mark_content_posted l now t c ty x)))) \<and>
      (fst (mark_email_content_generated l now t c ty x) = Inr () \<longrightarrow>
         tracker_file (snd (mark_email_content_generated l now t c ty x))
           = Stored (data (snd (mark_email_content_generated l now t c ty x)))) \<and>
      (fst (mark_rss_post_used l now t u c) = Inr () \<longrightarrow>
         tracker_file (snd (mark_rss_post_used l now t u c))
           = Stored (data (snd (mark_rss_post_used l now t u c)))) \<and>
      (fst (mark_theme_used l now t th) = Inr () \<longrightarrow>
         tracker_file (snd (mark_theme_used l now t th))
           = Stored (data (snd (mark_theme_used l now t th)))))"
proof -
  have q1: "tracker_file (snd (has_posted_similar_content l now t c ty x)) = tracker_file t"
    by (simp add: has_posted_similar_content_def Let_def
        split: prod.splits option.splits)
  have q2: "tracker_file (snd (has_generated_similar_email l now t c ty x)) = tracker_file t"
    by (simp add: has_generated_similar_email_def Let_def
        split: prod.splits option.splits)
  have q3: "tracker_file (snd (has_replied_to_tweet t tw)) = tracker_file t"
    by (simp add: has_replied_to_tweet_def split: option.splits)
  have q4: "tracker_file (snd (has_used_rss_post l now t u c)) = tracker_file t"
    by (simp add: has_used_rss_post_def Let_def split: prod.splits option.splits)
  have q5: "tracker_file (snd (has_used_theme_recently l now now' t th n)) = tracker_file t"
    by (simp add: has_used_theme_recently_def Let_def
        split: prod.splits option.splits tracked.splits sum.splits)
  have q6: "tracker_file (snd (get_statistics l now t)) = tracker_file t"
    by (simp add: get_statistics_def Let_def split: prod.splits option.splits)
  have m: "disk t = WriteOk \<longrightarrow>
      tracker_file (mark_tweet_replied l now t tw r)
        = Stored (data (mark_tweet_replied l now t tw r)) \<and>
      (fst (mark_content_posted l now t c ty x) = Inr () \<longrightarrow>
         tracker_file (snd (mark_content_posted l now t c ty x))
           = Stored (data (snd (mark_content_posted l now t c ty x)))) \<and>
      (fst (mark_email_content_generated l now t c ty x) = Inr () \<longrightarrow>
         tracker_file (snd (mark_email_content_generated l now t c ty x))
           = Stored (data (snd (mark_email_content_generated l now t c ty x)))) \<and>
      (fst (mark_rss_post_used l now t u c) = Inr () \<longrightarrow>
         tracker_file (snd (mark_rss_post_used l now t u c))
           = Stored (data (snd (mark_rss_post_used l now t u c)))) \<and>
      (fst (mark_theme_used l now t th) = Inr () \<longrightarrow>
         tracker_file (snd (mark_theme_used l now t th))
           = Stored (data (snd (mark_theme_used l now t th))))"
    by (simp add: mark_tweet_replied_def mark_content_posted_def
        mark_email_content_generated_def mark_rss_post_used_def mark_theme_used_def
        save_tracker_data_def Let_def split: option.splits)
  show ?thesis using q1 q2 q3 q4 q5 q6 m by simp
qed

text \<open>
  A query in June prunes the entries of January from memory and leaves them in the
  file; the next mark operation writes the pruned store.
\<close>

theorem queries_do_not_save_witness:
  "used_rss_posts (data sample_tracker) = Some [''alice:123457'' \<mapsto> Stamp ''2025-01-01T00:00:00''] \<and>
   used_rss_posts (data (snd (has_used_rss_post sample_lib 1748779200000000 sample_tracker
      ''alice'' ''post body''))) = Some Map.empty \<and>
   tracker_file (snd (has_used_rss_post sample_lib 1748779200000000 sample_tracker
      ''alice'' ''post body'')) = Stored (data sample_tracker) \<and>
   tracker_file (snd (mark_theme_used sample_lib 1748779200000000
      (snd (has_used_rss_post sample_lib 1748779200000000 sample_tracker ''alice'' ''post body''))
      ''robots''))
     = Stored (empty_data\<lparr>content_themes := Some [''robots'' \<mapsto> Stamp ''2025-06-01T12:00:00'']\<rparr>)"
proof -
  let ?t1 = "snd (has_used_rss_post sample_lib 1748779200000000 sample_tracker
      ''alice'' ''post body'')"
  have a: "used_rss_posts (data sample_tracker)
      = Some [''alice:123457'' \<mapsto> Stamp ''2025-01-01T00:00:00'']"
    by (simp add: sample_tracker_data)
  have b: "used_rss_posts (data ?t1) = Some Map.empty"
    by (simp add: sample_query empty_data_def)
  have c: "tracker_file ?t1 = Stored (data sample_tracker)"
    using queries_do_not_save [where l = sample_lib and now = 1748779200000000
        and t = sample_tracker and u = "''alice''" and c = "''post body''"]
    by (simp add: sample_tracker_file)
  have w: "disk ?t1 = WriteOk"
    by (simp add: sample_query sample_tracker_file)
  have m: "fst (mark_theme_used sample_lib 1748779200000000 ?t1 ''robots'') = Inr ()"
    by (simp add: sample_query mark_theme_used_def empty_data_def Let_def)
  have d: "data (snd (mark_theme_used sample_lib 1748779200000000 ?t1 ''robots''))
      = empty_data\<lparr>content_themes := Some [''robots'' \<mapsto> Stamp ''2025-06-01T12:00:00'']\<rparr>"
    by (simp add: sample_query mark_theme_used_data [where m = Map.empty] empty_data_def
        sample_iso)
  have "tracker_file (snd (mark_theme_used sample_lib 1748779200000000 ?t1 ''robots''))
      = Stored (data (snd (mark_theme_used sample_lib 1748779200000000 ?t1 ''robots'')))"
    using queries_do_not_save [where l = sample_lib and now = 1748779200000000
        and t = ?t1 and th = "''robots''"] w m
    by blast
  then show ?thesis
    using a b c d by simp
qed

subsection \<open>Which operations prune\<close>

lemma mark_content_posted_data:
  assumes "posted_content (data t) = Some items"
  shows "data (snd (mark_content_posted l now0 t c ty x))
           = (data t)\<lparr>posted_content := Some (items @
               [\<lparr>content = c, content_type = classify_content_type c x, original_type = ty,
                 entry_context = x, timestamp = Some (isoformat l now0)\<rparr>])\<rparr>"
  using assms
  by (cases "disk t") (simp_all add: mark_content_posted_def save_tracker_data_def Let_def)








subsection \<open>Self-similarity\<close>

text \<open>
  C5. The claim: a personal text with a non-empty preprocessed form is reported as a
  duplicate right after it was recorded. It fails for the text \<^verbatim>\<open>'a'\<close>: its
  preprocessed form is \<^verbatim>\<open>'a'\<close>, the vectorizer finds no term in the corpus and
  raises, the similarity is taken as 0, and the check returns \<open>False\<close>.
\<close>

theorem self_similarity_counterexample:
  "classify_content_type ''a'' '''' = ''personal'' \<and>
   preprocess_content ''a'' = ''a'' \<and>
   analyzer sample_lib ''a'' = [] \<and>
   fst (has_posted_similar_content sample_lib 1748779200000000
          (snd (mark_content_posted sample_lib 1748779200000000 (init Absent WriteOk hash_run1)
                  ''a'' '''' ''''))
          ''a'' '''' '''') = Inr False"
  by (simp add: classify_a preprocess_a has_posted_similar_content_def mark_defs Let_def
      clean_old_entries_def clean_dict_def entry_time_def sample_iso timedelta_days_def
      calculate_similarity_def fit_transform_def similarity_threshold_def sample_lib_def)

text \<open>
  A row of weights with a positive entry has, once scaled, the product 1 with itself.
\<close>

lemma dot_Cons: "dot (x # xs) (y # ys) = x * y + dot xs ys"
  by (simp add: dot_def)

lemma dot_self_nonneg: "0 \<le> dot v v"
  by (induction v) (simp_all add: dot_def)

lemma dot_self_pos: "x \<in> set v \<Longrightarrow> x \<noteq> 0 \<Longrightarrow> 0 < dot v v"
proof (induction v)
  case Nil
  then show ?case by simp
next
  case (Cons y ys)
  have n: "0 \<le> dot ys ys" by (rule dot_self_nonneg)
  show ?case
  proof (cases "x = y")
    case True
    then have "0 < y * y" using Cons.prems(2) by (auto simp: zero_less_mult_iff)
    then show ?thesis using n by (simp add: dot_Cons)
  next
    case False
    then have "0 < dot ys ys" using Cons by simp
    moreover have "0 \<le> y * y" by simp
    ultimately show ?thesis by (simp add: dot_Cons add_nonneg_pos)
  qed
qed

lemma dot_scale: "dot (map (\<lambda>x. x / c) v) (map (\<lambda>x. x / c) v) = dot v v / (c * c)"
  by (induction v) (simp_all add: dot_def add_divide_distrib)

lemma l2_normalize_unit:
  assumes "0 < dot v v"
  shows "dot (l2_normalize v) (l2_normalize v) = 1"
proof -
  have s: "sqrt (dot v v) * sqrt (dot v v) = dot v v"
    using assms by simp
  have "sqrt (dot v v) \<noteq> 0"
    using assms by simp
  then have "l2_normalize v = map (\<lambda>x. x / sqrt (dot v v)) v"
    by (simp add: l2_normalize_def Let_def)
  then show ?thesis
    using assms by (simp add: dot_scale s)
qed

lemma l2_normalize_of_unit:
  assumes "dot u u = 1"
  shows "l2_normalize u = u"
  using assms by (simp add: l2_normalize_def)

lemma cosine_self:
  assumes "0 < dot v v"
  shows "dot (l2_normalize (l2_normalize v)) (l2_normalize (l2_normalize v)) = 1"
  using l2_normalize_unit [OF assms] by (simp add: l2_normalize_of_unit)

lemma idf_ge_1: "1 \<le> idf docs w"
proof -
  have "document_frequency docs w \<le> length docs"
    by (simp add: document_frequency_def)
  then have "1 \<le> (1 + real (length docs)) / (1 + real (document_frequency docs w))"
    by (simp add: le_divide_eq)
  then have "0 \<le> ln ((1 + real (length docs)) / (1 + real (document_frequency docs w)))"
    by (rule ln_ge_zero)
  then show ?thesis by (simp add: idf_def)
qed

lemma weights_pos:
  assumes "w \<in> set vocab" and "w \<in> set doc"
  shows "0 < dot (map (\<lambda>w. tf doc w * idf docs w) vocab) (map (\<lambda>w. tf doc w * idf docs w) vocab)"
proof -
  have "count_list doc w \<noteq> 0"
    using assms(2) by (simp add: count_list_0_iff)
  then have "0 < tf doc w"
    by (simp add: tf_def)
  moreover have "0 < idf docs w"
    using idf_ge_1 [of docs w] by simp
  ultimately have "tf doc w * idf docs w \<noteq> 0"
    by simp
  moreover have "tf doc w * idf docs w \<in> set (map (\<lambda>w. tf doc w * idf docs w) vocab)"
    using assms(1) by simp
  ultimately show ?thesis
    by (rule dot_self_pos [rotated])
qed

text \<open>
  As long as the corpus has no more than 1000 distinct terms, every term of every
  document is in the vocabulary.
\<close>

lemma vocabulary_small:
  assumes "length (remdups (concat docs)) \<le> 1000"
    and "doc \<in> set docs" and "w \<in> set doc"
  shows "w \<in> set (vocabulary l docs)"
  using assms by (auto simp add: vocabulary_def Let_def)

text \<open>
  A candidate that has a copy among the existing texts and a term in the vocabulary
  gets the similarity 1 to its copy, so the maximum is 1 at least.
\<close>

lemma calculate_similarity_self:
  assumes "new_content \<in> set existing"
    and "w \<in> set (analyzer l (preprocess_content new_content))"
    and "w \<in> set (vocabulary l
           (map (analyzer l) (map preprocess_content (new_content # existing))))"
  shows "1 \<le> fst (calculate_similarity l new_content existing)"
proof -
  let ?docs = "map (analyzer l) (map preprocess_content (new_content # existing))"
  let ?vocab = "vocabulary l ?docs"
  let ?row = "\<lambda>doc. l2_normalize (map (\<lambda>w. tf doc w * idf ?docs w) ?vocab)"
  let ?d0 = "analyzer l (preprocess_content new_content)"
  let ?sims = "map (\<lambda>y. dot (l2_normalize (?row ?d0)) (l2_normalize y))
      (map ?row (map (analyzer l) (map preprocess_content existing)))"
  have ne: "existing \<noteq> []"
    using assms(1) by auto
  have "concat ?docs \<noteq> []"
    using assms(2) by auto
  then have fit: "fit_transform l (map preprocess_content (new_content # existing))
      = Inr (map ?row ?docs)"
    by (simp add: fit_transform_def Let_def)
  have sims: "concat (cosine_similarity (take 1 (map ?row ?docs)) (drop 1 (map ?row ?docs)))
      = ?sims"
    by (simp add: cosine_similarity_def)
  have "0 < dot (map (\<lambda>w. tf ?d0 w * idf ?docs w) ?vocab)
      (map (\<lambda>w. tf ?d0 w * idf ?docs w) ?vocab)"
    using assms(3,2) by (rule weights_pos)
  then have one: "dot (l2_normalize (?row ?d0)) (l2_normalize (?row ?d0)) = 1"
    by (rule cosine_self)
  have "?row ?d0 \<in> set (map ?row (map (analyzer l) (map preprocess_content existing)))"
    using assms(1) by auto
  then have "dot (l2_normalize (?row ?d0)) (l2_normalize (?row ?d0)) \<in> set ?sims"
    by auto
  then have in_sims: "1 \<in> set ?sims"
    using one by simp
  then have "1 \<le> max_of ?sims" and "?sims \<noteq> []"
    by (auto intro: max_of_ge)
  moreover have "calculate_similarity l new_content existing = (max_of ?sims, [])"
    using ne fit sims \<open>?sims \<noteq> []\<close>
    by (simp add: calculate_similarity_def Let_def del: map_map)
  ultimately show ?thesis by simp
qed

text \<open>
  C5, as the code has it. Take a personal text that keeps at least one term in the
  vocabulary of the corpus: a term \<open>w\<close> that the analyzer finds in its preprocessed
  form and that the 1000-term limit does not drop. Recorded at \<open>now0\<close> and checked by
  a pruning pass that runs within 30 days and raises nothing, it is reported as a
  duplicate, because its similarity to its own copy is 1, above the threshold of 0.15.
\<close>

theorem self_similarity_after_mark:
  assumes "classify_content_type content0 ctx = ''personal''"
    and "posted_content (data t) = Some items"
    and "fromisoformat l (isoformat l now0) = Inr now0"
    and "now - timedelta_days 30 \<le> now0"
    and "fst (clean_old_entries l now (data (snd (mark_content_posted l now0 t content0 ctype ctx))))
           = None"
    and "posted_content (snd (clean_old_entries l now
           (data (snd (mark_content_posted l now0 t content0 ctype ctx))))) = Some kept"
    and "w \<in> set (analyzer l (preprocess_content content0))"
    and "w \<in> set (vocabulary l
           (map (analyzer l) (map preprocess_content (content0 # map content kept))))"
  shows "1 \<le> fst (calculate_similarity l content0 (map content kept)) \<and>
         fst (has_posted_similar_content l now
           (snd (mark_content_posted l now0 t content0 ctype ctx)) content0 ctype ctx) = Inr True"
proof -
  let ?t1 = "snd (mark_content_posted l now0 t content0 ctype ctx)"
  let ?e = "\<lparr>content = content0, content_type = classify_content_type content0 ctx,
      original_type = ctype, entry_context = ctx, timestamp = Some (isoformat l now0)\<rparr>"
  obtain d where d: "clean_old_entries l now (data ?t1) = (None, d)"
    using assms(5) by (cases "clean_old_entries l now (data ?t1)") simp
  have kd: "posted_content d = Some kept"
    using assms(6) d by simp
  have "posted_content (data ?t1) = Some (items @ [?e])"
    using mark_content_posted_data [OF assms(2)] by simp
  then have "clean_list l (now - timedelta_days 30) (items @ [?e]) = Inr kept"
    using clean_old_entries_None(5) [OF d] kd by simp
  then have "kept = filter (fresh_entry l (now - timedelta_days 30)) (items @ [?e])"
    by (rule clean_list_Inr)
  moreover have "fresh_entry l (now - timedelta_days 30) ?e"
    using assms(3,4) by (simp add: fresh_entry_def entry_time_def)
  ultimately have "?e \<in> set kept"
    by simp
  then have copy: "content0 \<in> set (map content kept)"
    by force
  have ge: "1 \<le> fst (calculate_similarity l content0 (map content kept))"
    using copy assms(7,8) by (rule calculate_similarity_self)
  have kne: "map content kept \<noteq> []"
    using copy by auto
  have "similarity_threshold < fst (calculate_similarity l content0 (map content kept))"
    using ge by (simp add: similarity_threshold_def)
  moreover obtain s ws where "calculate_similarity l content0 (map content kept) = (s, ws)"
    by (cases "calculate_similarity l content0 (map content kept)")
  ultimately have "fst (has_posted_similar_content l now ?t1 content0 ctype ctx) = Inr True"
    using d kd assms(1) kne
    by (simp add: has_posted_similar_content_def Let_def)
  then show ?thesis
    using ge by simp
qed

text \<open>A text with a personal keyword, recorded and checked at the same instant.\<close>

theorem self_similarity_after_mark_witness:
  "classify_content_type ''lesson learned'' '''' = ''personal'' \<and>
   ''lesson'' \<in> set (analyzer sample_lib (preprocess_content ''lesson learned'')) \<and>
   fst (has_posted_similar_content sample_lib 1748779200000000
          (snd (mark_content_posted sample_lib 1748779200000000 (init Absent WriteOk hash_run1)
                  ''lesson learned'' '''' ''''))
          ''lesson learned'' '''' '''') = Inr True"
proof -
  let ?t1 = "snd (mark_content_posted sample_lib 1748779200000000 (init Absent WriteOk hash_run1)
                  ''lesson learned'' '''' '''')"
  let ?e = "\<lparr>content = ''lesson learned'', content_type = ''personal'',
      original_type = '''', entry_context = '''', timestamp = Some ''2025-06-01T12:00:00''\<rparr>"
  have d: "clean_old_entries sample_lib 1748779200000000 (data ?t1)
      = (None, empty_data\<lparr>posted_content := Some [?e]\<rparr>)"
    by (simp add: mark_defs Let_def clean_old_entries_def clean_dict_def entry_time_def
        sample_iso timedelta_days_def classify_lesson)
  have h3: "fromisoformat sample_lib (isoformat sample_lib 1748779200000000)
      = Inr 1748779200000000"
    by (simp add: sample_iso)
  have h4: "(1748779200000000::int) - timedelta_days 30 \<le> 1748779200000000"
    by (simp add: timedelta_days_def)
  have h5: "fst (clean_old_entries sample_lib 1748779200000000 (data ?t1)) = None"
    by (simp add: d)
  have h6: "posted_content (snd (clean_old_entries sample_lib 1748779200000000 (data ?t1)))
      = Some [?e]"
    by (simp add: d)
  have h7: "''lesson'' \<in> set (analyzer sample_lib (preprocess_content ''lesson learned''))"
    by (simp add: preprocess_lesson sample_lib_def)
  have h8: "''lesson'' \<in> set (vocabulary sample_lib (map (analyzer sample_lib)
      (map preprocess_content (''lesson learned'' # map content [?e]))))"
    by (simp add: preprocess_lesson sample_lib_def vocabulary_def)
  show ?thesis
    using self_similarity_after_mark [OF classify_lesson init_collections(3) h3 h4 h5 h6 h7 h8]
      classify_lesson h7
    by simp
qed

end
